theory Spec2Isabelle
  imports Complex_Main
begin

section \<open>Toast notifications: the use-toast hook\<close>

text \<open>
  The hook keeps one in-memory list of toasts, changed only through \<open>reducer\<close>.
  Besides the list, the module owns a counter for fresh ids and the map
  \<open>toastTimeouts\<close> of pending removal timers. The module-level variables are
  gathered in the record \<open>Module\<close> and passed explicitly.
\<close>

definition TOAST_LIMIT :: nat where
  "TOAST_LIMIT = 1"

definition TOAST_REMOVE_DELAY :: nat where
  "TOAST_REMOVE_DELAY = 1000000"

definition MAX_SAFE_INTEGER :: nat where
  "MAX_SAFE_INTEGER = 9007199254740991"

text \<open>
  The only closure ever stored in a toast is the \<open>onOpenChange\<close> handler built by
  \<open>toast\<close>: \<open>(open) => { if (!open) dismiss() }\<close>, where \<open>dismiss\<close> dispatches
  DISMISS_TOAST for the toast's own id. It is represented by the id it dismisses.
\<close>

datatype Callback = DismissOnClose string

text \<open>
  \<open>ToasterToast = ToastProps & {id; title?; description?; action?}\<close>. An optional
  property is an \<open>option\<close> (\<open>None\<close> reads as \<open>undefined\<close>). Of \<open>ToastProps\<close> the
  hook itself touches \<open>open\<close> (field \<open>is_open\<close>) and \<open>onOpenChange\<close>; the remaining
  properties of the toast component are carried, by name, in \<open>props\<close>.
\<close>

record ToasterToast =
  toast_id :: string
  title :: "string option"
  description :: "string option"
  action :: "string option"
  is_open :: "bool option"
  onOpenChange :: "Callback option"
  props :: "string \<rightharpoonup> string"

text \<open>
  \<open>Partial<ToasterToast>\<close>: every property may be absent. For a property that is
  itself optional the outer \<open>None\<close> is "absent" and \<open>Some None\<close> is "present with
  value undefined"; object spread copies the latter and skips the former.
\<close>

record PartialToast =
  p_id :: "string option"
  p_title :: "string option option"
  p_description :: "string option option"
  p_action :: "string option option"
  p_open :: "bool option option"
  p_onOpenChange :: "Callback option option"
  p_props :: "string \<rightharpoonup> string"

datatype Action =
    ADD_TOAST ToasterToast
  | UPDATE_TOAST PartialToast
  | DISMISS_TOAST "string option"
  | REMOVE_TOAST "string option"

record State =
  toasts :: "ToasterToast list"

text \<open>
  A timer started by \<open>setTimeout\<close>: the time at which it is due, and its callback.
  The only callback is the closure built in \<open>addToRemoveQueue\<close>,
  \<open>() => { toastTimeouts.delete(toastId); dispatch({type: "REMOVE_TOAST", toastId}) }\<close>,
  represented by the \<open>toastId\<close> it captured (field \<open>target\<close>).
\<close>

record Timer =
  due :: nat
  target :: string

text \<open>
  The module-level variables. \<open>toastTimeouts\<close> maps a toast id to the timer started
  for it; no timer is ever cleared. \<open>clock\<close> is the current time in milliseconds.
\<close>

record Module =
  clock :: nat
  toastTimeouts :: "string \<rightharpoonup> Timer"
  count :: nat
  memoryState :: State

text \<open>\<open>{ ...t, ...patch }\<close>: the properties present in the patch override those of \<open>t\<close>.\<close>

definition spread :: "ToasterToast \<Rightarrow> PartialToast \<Rightarrow> ToasterToast" where
  "spread t p =
     \<lparr> toast_id = (case p_id p of None \<Rightarrow> toast_id t | Some i \<Rightarrow> i),
       title = (case p_title p of None \<Rightarrow> title t | Some v \<Rightarrow> v),
       description = (case p_description p of None \<Rightarrow> description t | Some v \<Rightarrow> v),
       action = (case p_action p of None \<Rightarrow> action t | Some v \<Rightarrow> v),
       is_open = (case p_open p of None \<Rightarrow> is_open t | Some v \<Rightarrow> v),
       onOpenChange = (case p_onOpenChange p of None \<Rightarrow> onOpenChange t | Some v \<Rightarrow> v),
       props = props t ++ p_props p \<rparr>"

text \<open>
  \<open>addToRemoveQueue\<close>: nothing happens when the id already has a timer; otherwise a
  timer due \<open>TOAST_REMOVE_DELAY\<close> ms from now is started and recorded.
\<close>

definition addToRemoveQueue :: "string \<Rightarrow> Module \<Rightarrow> Module" where
  "addToRemoveQueue toastId m =
     (case toastTimeouts m toastId of
        Some _ \<Rightarrow> m
      | None \<Rightarrow>
          m\<lparr>toastTimeouts := (toastTimeouts m)(toastId \<mapsto>
               \<lparr>due = clock m + TOAST_REMOVE_DELAY, target = toastId\<rparr>)\<rparr>)"

text \<open>
  The reducer returns the new state; its DISMISS_TOAST case also calls
  \<open>addToRemoveQueue\<close>, so the module is threaded through. \<open>if (toastId)\<close> is
  JavaScript truthiness: \<open>undefined\<close> and the empty string both take the else branch,
  whereas the \<open>map\<close> below compares with \<open>===\<close>.
\<close>

fun reducer :: "State \<Rightarrow> Action \<Rightarrow> Module \<Rightarrow> State \<times> Module" where
  "reducer state (ADD_TOAST t) m =
     (state\<lparr>toasts := take TOAST_LIMIT (t # toasts state)\<rparr>, m)"
| "reducer state (UPDATE_TOAST p) m =
     (state\<lparr>toasts := map (\<lambda>t. if Some (toast_id t) = p_id p then spread t p else t)
                          (toasts state)\<rparr>, m)"
| "reducer state (DISMISS_TOAST toastId) m =
     (let m' = (case toastId of
                  Some i \<Rightarrow>
                    if i \<noteq> [] then addToRemoveQueue i m
                    else fold (\<lambda>toast. addToRemoveQueue (toast_id toast)) (toasts state) m
                | None \<Rightarrow>
                    fold (\<lambda>toast. addToRemoveQueue (toast_id toast)) (toasts state) m)
      in (state\<lparr>toasts := map (\<lambda>t. if Some (toast_id t) = toastId \<or> toastId = None
                                    then t\<lparr>is_open := Some False\<rparr> else t)
                              (toasts state)\<rparr>, m'))"
| "reducer state (REMOVE_TOAST toastId) m =
     (case toastId of
        None \<Rightarrow> (state\<lparr>toasts := []\<rparr>, m)
      | Some i \<Rightarrow> (state\<lparr>toasts := filter (\<lambda>t. toast_id t \<noteq> i) (toasts state)\<rparr>, m))"

text \<open>
  \<open>dispatch\<close> stores the reducer's result in \<open>memoryState\<close>. (It then hands the new
  state to the subscribed React components, which does not change the module.)
\<close>

definition dispatch :: "Action \<Rightarrow> Module \<Rightarrow> Module" where
  "dispatch a m = (case reducer (memoryState m) a m of (s, m') \<Rightarrow> m'\<lparr>memoryState := s\<rparr>)"

text \<open>
  A timer fires: its callback deletes the entry of the captured id from
  \<open>toastTimeouts\<close> and dispatches REMOVE_TOAST for that id.
\<close>

definition timeoutFires :: "Timer \<Rightarrow> Module \<Rightarrow> Module" where
  "timeoutFires timer m =
     dispatch (REMOVE_TOAST (Some (target timer)))
       (m\<lparr>toastTimeouts := (toastTimeouts m)(target timer := None)\<rparr>)"

text \<open>\<open>Number.prototype.toString\<close> on a natural number: its decimal digits.\<close>

fun toString :: "nat \<Rightarrow> string" where
  "toString n =
     (if n < 10 then [char_of (48 + n)]
      else toString (n div 10) @ [char_of (48 + n mod 10)])"

declare toString.simps [simp del]

definition genId :: "Module \<Rightarrow> string \<times> Module" where
  "genId m =
     (let c = (count m + 1) mod MAX_SAFE_INTEGER
      in (toString c, m\<lparr>count := c\<rparr>))"

text \<open>
  \<open>toast(props)\<close>: a fresh id, then ADD_TOAST of \<open>{...props, id, open: true,
  onOpenChange}\<close>, where \<open>props\<close> is a \<open>Toast = Omit<ToasterToast, "id">\<close>. The
  function returns the id (with closures \<open>dismiss\<close> and \<open>update\<close> for it).
\<close>

record Toast =
  t_title :: "string option"
  t_description :: "string option"
  t_action :: "string option"
  t_open :: "bool option"
  t_onOpenChange :: "Callback option"
  t_props :: "string \<rightharpoonup> string"

definition toast :: "Toast \<Rightarrow> Module \<Rightarrow> string \<times> Module" where
  "toast ps m =
     (case genId m of (i, m1) \<Rightarrow>
        (i, dispatch (ADD_TOAST
              \<lparr> toast_id = i, title = t_title ps, description = t_description ps,
                action = t_action ps, is_open = Some True,
                onOpenChange = Some (DismissOnClose i), props = t_props ps \<rparr>) m1))"

text \<open>
  The module as it is when loaded (\<open>count = 0\<close>, no timers, no toasts), at a given
  time; and a toast as \<open>toast\<close> builds one, for stating instances.
\<close>

definition initialModule :: "nat \<Rightarrow> Module" where
  "initialModule now =
     \<lparr> clock = now, toastTimeouts = Map.empty, count = 0, memoryState = \<lparr>toasts = []\<rparr> \<rparr>"

definition sampleToast :: "string \<Rightarrow> string \<Rightarrow> ToasterToast" where
  "sampleToast i t =
     \<lparr> toast_id = i, title = Some t, description = None, action = None,
       is_open = Some True, onOpenChange = Some (DismissOnClose i), props = Map.empty \<rparr>"

text \<open>
  A scenario: one toast on screen is dismissed at time 0; 500 ms later the same
  toast is dismissed again.
\<close>

definition dismissedOnce :: "State \<times> Module" where
  "dismissedOnce =
     reducer \<lparr>toasts = [sampleToast ''1'' ''Level Up!'']\<rparr> (DISMISS_TOAST (Some ''1''))
       (initialModule 0)"

definition dismissedTwice :: "State \<times> Module" where
  "dismissedTwice =
     reducer (fst dismissedOnce) (DISMISS_TOAST (Some ''1'')) ((snd dismissedOnce)\<lparr>clock := 500\<rparr>)"

section \<open>Mock data: the leaderboard and the achievements\<close>

record LeaderboardUser =
  user_id :: int
  user_rank :: int
  user_name :: string
  user_drops :: int
  avatar :: string
  user_streak :: int
  user_level :: int

definition leaderboardData :: "LeaderboardUser list" where
  "leaderboardData =
   [ \<lparr>user_id = 1, user_rank = 1, user_name = ''Joan Clarke'', user_drops = 13500,
       avatar = ''woman thinking'', user_streak = 42, user_level = 28\<rparr>,
     \<lparr>user_id = 2, user_rank = 2, user_name = ''Alan Turing'', user_drops = 12800,
       avatar = ''man with glasses'', user_streak = 35, user_level = 26\<rparr>,
     \<lparr>user_id = 3, user_rank = 3, user_name = ''Grace Hopper'', user_drops = 12000,
       avatar = ''woman in navy uniform'', user_streak = 30, user_level = 24\<rparr>,
     \<lparr>user_id = 4, user_rank = 4, user_name = ''David J. Malan'', user_drops = 11500,
       avatar = ''man teaching computer science'', user_streak = 28, user_level = 23\<rparr>,
     \<lparr>user_id = 5, user_rank = 5, user_name = ''Ada Lovelace'', user_drops = 11200,
       avatar = ''victorian woman writing'', user_streak = 25, user_level = 22\<rparr>,
     \<lparr>user_id = 6, user_rank = 6, user_name = ''Duo'', user_drops = 10800,
       avatar = ''green owl mascot'', user_streak = 200, user_level = 21\<rparr>,
     \<lparr>user_id = 7, user_rank = 7, user_name = ''Steve'', user_drops = 10500,
       avatar = ''blocky character mining'', user_streak = 18, user_level = 20\<rparr>,
     \<lparr>user_id = 8, user_rank = 8, user_name = ''Rubber Ducky'', user_drops = 10100,
       avatar = ''rubber duck with code'', user_streak = 15, user_level = 19\<rparr>,
     \<lparr>user_id = 9, user_rank = 9, user_name = ''Donald Knuth'', user_drops = 9800,
       avatar = ''man with organ pipes'', user_streak = 12, user_level = 18\<rparr>,
     \<lparr>user_id = 10, user_rank = 10, user_name = ''Margaret Hamilton'', user_drops = 9500,
       avatar = ''woman with stack of books'', user_streak = 10, user_level = 17\<rparr> ]"

datatype Icon =
    Award | Shield | Target | Calendar | Sparkles | Trophy | Droplet | Clock | Wind | Zap
  | Mountain | Star | Moon | Sun | Heart | Coffee | Anchor | GitCommit | Bot | Gift | Gem
  | ShieldCheck | Sword

record Achievement =
  ach_id :: int
  icon :: Icon
  ach_title :: string
  ach_description :: string

record UserAchievement = Achievement +
  achieved :: bool

definition allAchievementsList :: "Achievement list" where
  "allAchievementsList =
   [ \<lparr>ach_id = 1, icon = Droplet, ach_title = ''First Sip'', ach_description = ''Log your first drink.''\<rparr>,
     \<lparr>ach_id = 2, icon = Award, ach_title = ''Half-Litre Hero'', ach_description = ''Drink 500 mL in a day.''\<rparr>,
     \<lparr>ach_id = 3, icon = Target, ach_title = ''Daily Goal Crusher'', ach_description = ''Hit your daily target once.''\<rparr>,
     \<lparr>ach_id = 4, icon = Star, ach_title = ''Hydration Rookie'', ach_description = ''Drink 10 L total.''\<rparr>,
     \<lparr>ach_id = 5, icon = Trophy, ach_title = ''H2O Pro'', ach_description = ''Drink 100 L total.''\<rparr>,
     \<lparr>ach_id = 6, icon = Shield, ach_title = ''Liquid Legend'', ach_description = ''Drink 500 L total.''\<rparr>,
     \<lparr>ach_id = 7, icon = Gem, ach_title = ''HydraMaster'', ach_description = ''Drink 1000 L total.''\<rparr>,
     \<lparr>ach_id = 8, icon = Calendar, ach_title = ''3-Day Streaker'', ach_description = ''Hit your daily target 3 days in a row.''\<rparr>,
     \<lparr>ach_id = 9, icon = Calendar, ach_title = ''Weekly Winner'', ach_description = ''Hit daily target for 7 consecutive days.''\<rparr>,
     \<lparr>ach_id = 10, icon = Calendar, ach_title = ''Month of Flow'', ach_description = ''30 days without missing a goal.''\<rparr>,
     \<lparr>ach_id = 11, icon = Anchor, ach_title = ''Iron Will'', ach_description = ''90-day streak.''\<rparr>,
     \<lparr>ach_id = 12, icon = GitCommit, ach_title = ''365 Days of Clarity'', ach_description = ''1 year without missing a day.''\<rparr>,
     \<lparr>ach_id = 13, icon = Zap, ach_title = ''Perfect Pour'', ach_description = ''Hit your goal exactly, no more no less.''\<rparr>,
     \<lparr>ach_id = 14, icon = Clock, ach_title = ''Right on Time'', ach_description = ''Meet all timed drinking reminders for a day.''\<rparr>,
     \<lparr>ach_id = 15, icon = Wind, ach_title = ''Speed Sipper'', ach_description = ''Log 200 mL within 60 seconds of a reminder.''\<rparr>,
     \<lparr>ach_id = 16, icon = Heart, ach_title = ''Even Flow'', ach_description = ''Keep each drinking session evenly distributed.''\<rparr>,
     \<lparr>ach_id = 17, icon = Bot, ach_title = ''Adaptive Athlete'', ach_description = ''Adjust goal and meet it perfectly 3 days.''\<rparr>,
     \<lparr>ach_id = 18, icon = Sun, ach_title = ''Summer Survivor'', ach_description = ''Meet goal every day in a heatwave week.''\<rparr>,
     \<lparr>ach_id = 19, icon = Mountain, ach_title = ''Winter Warrior'', ach_description = ''Stay hydrated for 14 days in winter.''\<rparr>,
     \<lparr>ach_id = 20, icon = Gift, ach_title = ''Festival Flow'', ach_description = ''Log water during a major festival day.''\<rparr>,
     \<lparr>ach_id = 21, icon = Sword, ach_title = ''Boss Battle Victor'', ach_description = ''Complete a high-goal challenge event.''\<rparr>,
     \<lparr>ach_id = 22, icon = Trophy, ach_title = ''Hydration Marathoner'', ach_description = ''Log every drink in a 24-hour event.''\<rparr>,
     \<lparr>ach_id = 23, icon = Moon, ach_title = ''Midnight Mirage'', ach_description = ''Log a drink between 12:00 AM and 3:00 AM.''\<rparr>,
     \<lparr>ach_id = 24, icon = ShieldCheck, ach_title = ''Double Hydra'', ach_description = ''Drink double your daily goal.''\<rparr>,
     \<lparr>ach_id = 25, icon = Droplet, ach_title = ''One-Sip Wonder'', ach_description = ''Log 500 mL in a single sip.''\<rparr>,
     \<lparr>ach_id = 26, icon = Sparkles, ach_title = ''Quantum Sip'', ach_description = ''Log 42 mL. The answer to everything.''\<rparr>,
     \<lparr>ach_id = 27, icon = Zap, ach_title = ''Dehydration Slayer'', ach_description = ''Return after a 7-day break and crush your goal.''\<rparr>,
     \<lparr>ach_id = 28, icon = Coffee, ach_title = ''Bottle Buddy'', ach_description = ''Sync with a friend and both meet goals.''\<rparr> ]"

text \<open>
  JavaScript's \<open>%\<close> on integers is the remainder of the truncated division: it takes
  the sign of the dividend.
\<close>

definition js_rem :: "int \<Rightarrow> int \<Rightarrow> int" where
  "js_rem a b = sgn a * (\<bar>a\<bar> mod \<bar>b\<bar>)"

text \<open>\<open>{ ...ach, achieved: (ach.id * 3 + user.id * 5) % 10 > 3 }\<close>\<close>

definition unlock :: "LeaderboardUser \<Rightarrow> Achievement \<Rightarrow> UserAchievement" where
  "unlock user ach =
     \<lparr> ach_id = ach_id ach, icon = icon ach, ach_title = ach_title ach,
       ach_description = ach_description ach,
       achieved = (js_rem (ach_id ach * 3 + user_id user * 5) 10 > 3) \<rparr>"

text \<open>
  \<open>allAchievements\<close> is \<open>leaderboardData.reduce(..., {})\<close>: a left fold that stores,
  under each user's id, the master list mapped through \<open>unlock\<close>.
\<close>

definition allAchievements :: "int \<rightharpoonup> UserAchievement list" where
  "allAchievements =
     foldl (\<lambda>acc user. acc(user_id user \<mapsto> map (unlock user) allAchievementsList))
       Map.empty leaderboardData"

section \<open>Utilities: the hydration rank\<close>

text \<open>
  A JavaScript \<open>number\<close> is modelled as a real: comparisons are exact, and the progress
  percentage is the exact quotient (the value NaN is outside the model).
\<close>

record RankEntry =
  rank_level :: real
  rank_name :: string

definition ranks :: "RankEntry list" where
  "ranks =
   [ \<lparr>rank_level = 1, rank_name = ''Trainee''\<rparr>,
     \<lparr>rank_level = 5, rank_name = ''Scout''\<rparr>,
     \<lparr>rank_level = 10, rank_name = ''Adept''\<rparr>,
     \<lparr>rank_level = 15, rank_name = ''Hydrator''\<rparr>,
     \<lparr>rank_level = 20, rank_name = ''Hydro-Hero''\<rparr>,
     \<lparr>rank_level = 25, rank_name = ''Aqua-Knight''\<rparr>,
     \<lparr>rank_level = 30, rank_name = ''Master''\<rparr>,
     \<lparr>rank_level = 40, rank_name = ''Hydration Lord''\<rparr>,
     \<lparr>rank_level = 50, rank_name = ''Poseidon's Chosen''\<rparr> ]"

record HydrationRank =
  rank :: string
  nextRank :: string
  progress :: real

text \<open>
  The \<open>for ... of\<close> loop with its \<open>break\<close>: \<open>currentRank\<close> is the accumulator, and
  the first entry above the level ends the loop.
\<close>

fun rankLoop :: "real \<Rightarrow> RankEntry \<Rightarrow> RankEntry list \<Rightarrow> RankEntry" where
  "rankLoop lvl currentRank [] = currentRank"
| "rankLoop lvl currentRank (r # rest) =
     (if lvl \<ge> rank_level r then rankLoop lvl r rest else currentRank)"

text \<open>\<open>Array.prototype.findIndex\<close>: the first index satisfying the predicate, or -1.\<close>

fun findIndex :: "('a \<Rightarrow> bool) \<Rightarrow> 'a list \<Rightarrow> int" where
  "findIndex P [] = -1"
| "findIndex P (x # xs) =
     (if P x then 0 else (let i = findIndex P xs in if i < 0 then -1 else i + 1))"

text \<open>An array read \<open>xs[i]\<close>: \<open>undefined\<close> (here \<open>None\<close>) outside the array.\<close>

definition at_index :: "'a list \<Rightarrow> int \<Rightarrow> 'a option" where
  "at_index xs i = (if 0 \<le> i \<and> i < int (length xs) then Some (xs ! nat i) else None)"

text \<open>\<open>ranks[0]\<close> below reads a non-empty literal array.\<close>

definition getHydrationRank :: "real \<Rightarrow> HydrationRank" where
  "getHydrationRank lvl =
     (let currentRank = rankLoop lvl (ranks ! 0) ranks;
          currentRankIndex = findIndex (\<lambda>r. rank_name r = rank_name currentRank) ranks
      in case at_index ranks (currentRankIndex + 1) of
           None \<Rightarrow> \<lparr>rank = rank_name currentRank, nextRank = ''Max Rank'', progress = 100\<rparr>
         | Some nxt \<Rightarrow>
             \<lparr>rank = rank_name currentRank, nextRank = rank_name nxt,
              progress = ((lvl - rank_level currentRank)
                          / (rank_level nxt - rank_level currentRank)) * 100\<rparr>)"

text \<open>
  The rank as the glossary words it, for comparison with the code: the name of the
  table entry with the largest threshold not exceeding the level, if there is one.
\<close>

definition rank_by_table :: "real \<Rightarrow> string option" where
  "rank_by_table lvl =
     (case filter (\<lambda>r. rank_level r \<le> lvl) ranks of
        [] \<Rightarrow> None
      | r # rs \<Rightarrow> Some (rank_name (fold (\<lambda>a b. if rank_level b < rank_level a then a else b) rs r)))"

section \<open>The dashboard component\<close>

record Hydration =
  current :: int
  goal :: int

record MotivationOutput =
  message :: string
  motivation_title :: string

text \<open>The component's \<open>useState\<close> cells. The counters hold integers throughout.\<close>

record Dashboard =
  isConnected :: bool
  hydration :: Hydration
  bottleLevel :: int
  streak :: int
  motivation :: MotivationOutput
  level :: int
  xp :: int
  drops :: int
  levelUpInfo :: "int option"

text \<open>
  The initial render: \<open>useState\<close> defaults, with the motivation handed in by the server.
\<close>

definition initialDashboard :: "MotivationOutput \<Rightarrow> Dashboard" where
  "initialDashboard initialMotivation =
     \<lparr> isConnected = False, hydration = \<lparr>current = 0, goal = 2500\<rparr>, bottleLevel = 750,
       streak = 0, motivation = initialMotivation, level = 1, xp = 0, drops = 0,
       levelUpInfo = None \<rparr>"

text \<open>
  \<open>drank = 50 * (Math.floor(Math.random() * 3) + 1)\<close>, as a function of the value
  \<open>rnd\<close> returned by \<open>Math.random()\<close>.
\<close>

definition drank :: "real \<Rightarrow> int" where
  "drank rnd = 50 * (\<lfloor>rnd * 3\<rfloor> + 1)"

text \<open>
  One run of the interval callback. \<open>xpToNextLevel\<close> is \<open>level * 100\<close> of the render
  that installed the interval; the effect is re-installed whenever the level changes,
  so it is computed from the current level. The four state updates are applied in the
  order of the source.
\<close>

definition tick :: "real \<Rightarrow> Dashboard \<Rightarrow> Dashboard" where
  "tick rnd s =
     (let d = drank rnd; xpToNextLevel = level s * 100 in
      if d > 0 then
        (let newXp = xp s + d;
             s1 = (if newXp \<ge> xpToNextLevel
                   then s\<lparr>level := level s + 1, levelUpInfo := Some (level s + 1),
                          xp := newXp - xpToNextLevel\<rparr>
                   else s\<lparr>xp := newXp\<rparr>);
             s2 = s1\<lparr>hydration := (hydration s1)\<lparr>current :=
                        min (current (hydration s1) + d) (goal (hydration s1))\<rparr>\<rparr>;
             s3 = s2\<lparr>bottleLevel := max 0 (bottleLevel s2 - d)\<rparr>
         in s3\<lparr>drops := drops s3 + \<lfloor>real_of_int d / 10\<rfloor>\<rparr>)
      else s)"

text \<open>A sequence of interval ticks, one random value per tick.\<close>

definition ticks :: "real list \<Rightarrow> Dashboard \<Rightarrow> Dashboard" where
  "ticks rnds s = foldl (\<lambda>st r. tick r st) s rnds"

text \<open>
  \<open>type Toast = Omit<ToasterToast, "id">\<close> is the argument of \<open>toast\<close>; the handlers
  of the dashboard pass a title and a description only.
\<close>

definition titled :: "string \<Rightarrow> string \<Rightarrow> Toast" where
  "titled t d =
     \<lparr> t_title = Some t, t_description = Some d, t_action = None, t_open = None,
       t_onOpenChange = None, t_props = Map.empty \<rparr>"

text \<open>
  \<open>handleConnect\<close>: the connection flag, one toast, and the counters reset. The toast
  goes through the module of the toast hook, which is therefore threaded through.
\<close>

definition handleConnect :: "Dashboard \<Rightarrow> Module \<Rightarrow> Dashboard \<times> Module" where
  "handleConnect s m =
     (let s1 = s\<lparr>isConnected := True\<rparr>;
          m1 = snd (toast (titled ''NEPHRA Connected'' ''Ready to track your hydration.'') m)
      in (s1\<lparr>hydration := \<lparr>current = 0, goal = 2500\<rparr>, bottleLevel := 750, streak := 5,
             level := 1, xp := 0, drops := 0\<rparr>, m1))"

section \<open>The server action for hydration recommendations\<close>

text \<open>
  \<open>ProfileSchema.parse\<close> (the validation library) and \<open>hydrationRecommendations\<close> (the
  call to the hosted model) are parameters of the action: each either throws
  (\<open>Inl\<close>) or returns (\<open>Inr\<close>).
\<close>

record Profile =
  name :: string
  age :: real
  gender :: string
  weight :: real
  healthConditions :: "string option"

record HydrationRecommendationsInput = Profile +
  historicalData :: string

record HydrationRecommendationsOutput =
  goal_ml :: real
  alert_interval_minutes :: real

definition mockHistoricalData :: string where
  \<open>mockHistoricalData =
     ''[{"timestamp":"2024-07-28T08:00:00Z","amount":250},'' @
     ''{"timestamp":"2024-07-28T10:30:00Z","amount":300},'' @
     ''{"timestamp":"2024-07-28T13:00:00Z","amount":200}]''\<close>

text \<open>\<open>{ ...validatedData, historicalData: mockHistoricalData }\<close>\<close>

definition withHistory :: "Profile \<Rightarrow> string \<Rightarrow> HydrationRecommendationsInput" where
  "withHistory p h =
     \<lparr> name = name p, age = age p, gender = gender p, weight = weight p,
       healthConditions = healthConditions p, historicalData = h \<rparr>"

text \<open>
  The body of the \<open>try\<close> block: the first throw ends it. The action returns the
  result, or \<open>null\<close> (\<open>None\<close>) from the \<open>catch\<close>, together with what it wrote to
  \<open>console.error\<close>.
\<close>

definition tryBody ::
  "('d \<Rightarrow> 'e + Profile)
     \<Rightarrow> (HydrationRecommendationsInput \<Rightarrow> 'e + HydrationRecommendationsOutput)
     \<Rightarrow> 'd \<Rightarrow> 'e + HydrationRecommendationsOutput" where
  "tryBody parse flow data =
     (case parse data of
        Inl err \<Rightarrow> Inl err
      | Inr validatedData \<Rightarrow> flow (withHistory validatedData mockHistoricalData))"

definition getHydrationRecommendationAction ::
  "('d \<Rightarrow> 'e + Profile)
     \<Rightarrow> (HydrationRecommendationsInput \<Rightarrow> 'e + HydrationRecommendationsOutput)
     \<Rightarrow> 'd \<Rightarrow> HydrationRecommendationsOutput option \<times> 'e list" where
  "getHydrationRecommendationAction parse flow data =
     (case tryBody parse flow data of
        Inr result \<Rightarrow> (Some result, [])
      | Inl err \<Rightarrow> (None, [err]))"

text \<open>
  Stand-ins for the two external calls, for stating instances: a validation that
  rejects data of the wrong shape (\<open>None\<close>), and a flow that fails on a
  non-positive weight.
\<close>

definition testParse :: "Profile option \<Rightarrow> string + Profile" where
  "testParse data = (case data of None \<Rightarrow> Inl ''ZodError'' | Some p \<Rightarrow> Inr p)"

definition testFlow :: "HydrationRecommendationsInput \<Rightarrow> string + HydrationRecommendationsOutput" where
  "testFlow input =
     (if weight input \<le> 0 then Inl ''no output''
      else Inr \<lparr>goal_ml = weight input * 35, alert_interval_minutes = 60\<rparr>)"

definition formDefaults :: Profile where
  "formDefaults =
     \<lparr> name = ''Joan Clarke'', age = 16, gender = ''female'', weight = 55,
       healthConditions = Some [] \<rparr>"

section \<open>Properties of the toast reducer\<close>


lemma length_reducer_le:
  "length (toasts (fst (reducer state a m))) \<le> max (length (toasts state)) TOAST_LIMIT"
  by (cases a) (auto simp: TOAST_LIMIT_def Let_def le_max_iff_disj split: option.splits
      intro: order_trans [OF length_filter_le])

text \<open>
  C1. With at most \<open>TOAST_LIMIT = 1\<close> toasts in the state, every action (ADD_TOAST,
  UPDATE_TOAST, DISMISS_TOAST, REMOVE_TOAST) leaves at most one toast in the state
  returned by the reducer; and after ADD_TOAST, from any state, the list is exactly
  the toast just added.
\<close>

theorem reducer_toast_limit:
  "(length (toasts state) \<le> TOAST_LIMIT \<longrightarrow> length (toasts (fst (reducer state a m))) \<le> 1)
   \<and> toasts (fst (reducer state (ADD_TOAST t) m)) = [t]"
proof
  show "length (toasts state) \<le> TOAST_LIMIT \<longrightarrow> length (toasts (fst (reducer state a m))) \<le> 1"
    using length_reducer_le [of state a m] by (auto simp: TOAST_LIMIT_def max_def split: if_splits)
  show "toasts (fst (reducer state (ADD_TOAST t) m)) = [t]"
    by (simp add: TOAST_LIMIT_def)
qed

theorem reducer_toast_limit_witness:
  "length (toasts \<lparr>toasts = [sampleToast ''1'' ''Level Up!'']\<rparr>) \<le> TOAST_LIMIT
   \<and> length (toasts (fst (reducer \<lparr>toasts = [sampleToast ''1'' ''Level Up!'']\<rparr>
                               (DISMISS_TOAST None) (initialModule 0)))) \<le> 1
   \<and> toasts (fst (reducer \<lparr>toasts = [sampleToast ''1'' ''Level Up!'']\<rparr>
                     (ADD_TOAST (sampleToast ''2'' ''Sync Complete'')) (initialModule 0)))
       = [sampleToast ''2'' ''Sync Complete'']"
  using reducer_toast_limit [of "\<lparr>toasts = [sampleToast ''1'' ''Level Up!'']\<rparr>"
      "DISMISS_TOAST None" "initialModule 0" "sampleToast ''2'' ''Sync Complete''"]
  by (simp add: TOAST_LIMIT_def)

text \<open>
  C10. REMOVE_TOAST with no toastId empties the list. With a toastId it keeps, in
  order and unchanged, exactly the toasts whose id differs from it: a toast is in the
  result if and only if it was in the list and has another id.
\<close>

theorem reducer_remove_toast:
  "toasts (fst (reducer state (REMOVE_TOAST None) m)) = []
   \<and> toasts (fst (reducer state (REMOVE_TOAST (Some i)) m))
       = filter (\<lambda>t. toast_id t \<noteq> i) (toasts state)
   \<and> (t \<in> set (toasts (fst (reducer state (REMOVE_TOAST (Some i)) m)))
        = (t \<in> set (toasts state) \<and> toast_id t \<noteq> i))"
  by simp

theorem reducer_remove_toast_witness:
  "toasts (fst (reducer \<lparr>toasts = [sampleToast ''1'' ''a'', sampleToast ''2'' ''b'']\<rparr>
                  (REMOVE_TOAST None) (initialModule 0))) = []
   \<and> toasts (fst (reducer \<lparr>toasts = [sampleToast ''1'' ''a'', sampleToast ''2'' ''b'']\<rparr>
                     (REMOVE_TOAST (Some ''1'')) (initialModule 0)))
       = [sampleToast ''2'' ''b'']"
  using reducer_remove_toast [of "\<lparr>toasts = [sampleToast ''1'' ''a'', sampleToast ''2'' ''b'']\<rparr>"
      "initialModule 0" "''1''" "sampleToast ''2'' ''b''"]
  by (simp add: sampleToast_def)

subsection \<open>Dismissal and the removal queue\<close>

lemma addToRemoveQueue_timeouts:
  "toastTimeouts (addToRemoveQueue i m) j =
     (if j = i \<and> toastTimeouts m i = None
      then Some \<lparr>due = clock m + TOAST_REMOVE_DELAY, target = j\<rparr>
      else toastTimeouts m j)"
  by (simp add: addToRemoveQueue_def split: option.splits)

lemma addToRemoveQueue_clock: "clock (addToRemoveQueue i m) = clock m"
  by (simp add: addToRemoveQueue_def split: option.splits)

lemma queue_all_timeouts:
  "toastTimeouts (fold (\<lambda>toast. addToRemoveQueue (toast_id toast)) ts m) j =
     (if j \<in> toast_id ` set ts \<and> toastTimeouts m j = None
      then Some \<lparr>due = clock m + TOAST_REMOVE_DELAY, target = j\<rparr>
      else toastTimeouts m j)"
proof (induction ts arbitrary: m)
  case Nil
  show ?case by simp
next
  case (Cons t ts)
  show ?case
    by (auto simp: Cons.IH addToRemoveQueue_timeouts addToRemoveQueue_clock)
qed

lemma dismiss_timeouts:
  "toastTimeouts (snd (reducer state (DISMISS_TOAST toastId) m)) j =
     (if toastTimeouts m j = None \<and>
         (case toastId of
            Some i \<Rightarrow> if i \<noteq> [] then j = i else j \<in> toast_id ` set (toasts state)
          | None \<Rightarrow> j \<in> toast_id ` set (toasts state))
      then Some \<lparr>due = clock m + TOAST_REMOVE_DELAY, target = j\<rparr>
      else toastTimeouts m j)"
  by (auto simp: Let_def queue_all_timeouts addToRemoveQueue_timeouts split: option.splits)

lemma timeoutFires_removes:
  "toasts (memoryState (timeoutFires timer mm))
     = filter (\<lambda>t. toast_id t \<noteq> target timer) (toasts (memoryState mm))"
  by (simp add: timeoutFires_def dispatch_def)

lemma timeoutFires_dequeues:
  "toastTimeouts (timeoutFires timer mm) (target timer) = None"
  by (simp add: timeoutFires_def dispatch_def)

text \<open>Neither UPDATE_TOAST nor DISMISS_TOAST changes which ids are in the list.\<close>

lemma ids_kept:
  assumes "\<forall>n. a \<noteq> ADD_TOAST n" and "\<forall>i. a \<noteq> REMOVE_TOAST i"
  shows "map toast_id (toasts (fst (reducer s a mm))) = map toast_id (toasts s)"
proof (cases a)
  case (ADD_TOAST n)
  with assms show ?thesis by simp
next
  case (UPDATE_TOAST p)
  have "toast_id (if Some (toast_id t) = p_id p then spread t p else t) = toast_id t" for t
    by (cases "p_id p") (auto simp: spread_def)
  with UPDATE_TOAST show ?thesis by (simp add: comp_def)
next
  case (DISMISS_TOAST i)
  then show ?thesis by (simp add: Let_def comp_def)
next
  case (REMOVE_TOAST i)
  with assms show ?thesis by simp
qed

text \<open>
  C2, as stated, fails in its last clause, in two ways. In the scenario above the
  second dismissal (at time 500) starts no timer: the toast stays due for removal at
  time 1000000, the delay after the first dismissal, not at 500 + 1000000. And a
  dismissed toast also leaves the list without any REMOVE_TOAST, when ADD_TOAST
  evicts it under the limit of one toast.
\<close>

theorem dismiss_queues_removal_counterexample:
  "toastTimeouts (snd dismissedOnce) ''1'' = Some \<lparr>due = 1000000, target = ''1''\<rparr>
   \<and> clock ((snd dismissedOnce)\<lparr>clock := 500\<rparr>) + TOAST_REMOVE_DELAY = 1000500
   \<and> toastTimeouts (snd dismissedTwice) ''1'' = Some \<lparr>due = 1000000, target = ''1''\<rparr>
   \<and> map toast_id (toasts (fst dismissedTwice)) = [''1'']
   \<and> map toast_id (toasts (fst (reducer (fst dismissedTwice)
         (ADD_TOAST (sampleToast ''2'' ''Sync Complete'')) (snd dismissedTwice)))) = [''2'']"
  by (simp add: dismissedTwice_def dismissedOnce_def initialModule_def sampleToast_def
      addToRemoveQueue_def TOAST_REMOVE_DELAY_def TOAST_LIMIT_def)

text \<open>
  C2, amended. For every state and every DISMISS_TOAST action the reducer keeps the
  ids and the length of the toast list and changes nothing but the \<open>open\<close> field, set
  to false, of the targeted toast, or of every toast when no toastId is given.

  The toast leaves the list only via a later REMOVE_TOAST action or via an ADD_TOAST
  action: every other action, from any state, keeps the ids of the list, and
  ADD_TOAST replaces the list by the new toast.

  The REMOVE_TOAST is scheduled by \<open>addToRemoveQueue\<close>: every toast closed by the
  dismissal has, afterwards, an entry in \<open>toastTimeouts\<close> under its id. When the id
  had no entry, the entry is a new timer due \<open>TOAST_REMOVE_DELAY\<close> ms after this
  dismissal whose callback is for that id; when it had one, that timer is kept as it
  is (no pending timer is ever rescheduled). Entries keyed by the id their callback
  is for stay so, and then the timer found under the id of a closed toast is for
  that toast: when it fires, its callback clears the entry and its REMOVE_TOAST
  removes from the list exactly the toasts of that id.
\<close>

theorem dismiss_queues_removal:
  fixes state :: State and toastId :: "string option" and m :: Module
  defines "state' \<equiv> fst (reducer state (DISMISS_TOAST toastId) m)"
    and "m' \<equiv> snd (reducer state (DISMISS_TOAST toastId) m)"
  shows
    "map toast_id (toasts state') = map toast_id (toasts state)
     \<and> length (toasts state') = length (toasts state)
     \<and> (\<forall>k < length (toasts state).
           toasts state' ! k =
             (if Some (toast_id (toasts state ! k)) = toastId \<or> toastId = None
              then (toasts state ! k)\<lparr>is_open := Some False\<rparr> else toasts state ! k))
     \<and> (\<forall>a s mm. (\<forall>n. a \<noteq> ADD_TOAST n) \<and> (\<forall>i. a \<noteq> REMOVE_TOAST i) \<longrightarrow>
           map toast_id (toasts (fst (reducer s a mm))) = map toast_id (toasts s))
     \<and> (\<forall>n s mm. toasts (fst (reducer s (ADD_TOAST n) mm)) = [n])
     \<and> (\<forall>t \<in> set (toasts state). Some (toast_id t) = toastId \<or> toastId = None \<longrightarrow>
           toastTimeouts m' (toast_id t) =
             (case toastTimeouts m (toast_id t) of
                None \<Rightarrow> Some \<lparr>due = clock m + TOAST_REMOVE_DELAY, target = toast_id t\<rparr>
              | Some timer \<Rightarrow> Some timer))
     \<and> (\<forall>j timer. toastTimeouts m j = Some timer \<longrightarrow> toastTimeouts m' j = Some timer)
     \<and> ((\<forall>j timer. toastTimeouts m j = Some timer \<longrightarrow> target timer = j) \<longrightarrow>
          (\<forall>j timer. toastTimeouts m' j = Some timer \<longrightarrow> target timer = j))
     \<and> (\<forall>t \<in> set (toasts state).
           (Some (toast_id t) = toastId \<or> toastId = None)
           \<and> (toastTimeouts m (toast_id t) = None
                \<or> (\<forall>j timer. toastTimeouts m j = Some timer \<longrightarrow> target timer = j)) \<longrightarrow>
           (\<exists>timer. toastTimeouts m' (toast_id t) = Some timer
              \<and> target timer = toast_id t
              \<and> (\<forall>mm. toasts (memoryState (timeoutFires timer mm))
                          = filter (\<lambda>x. toast_id x \<noteq> toast_id t) (toasts (memoryState mm))
                        \<and> toastTimeouts (timeoutFires timer mm) (toast_id t) = None)))"
proof (intro conjI)
  show "map toast_id (toasts state') = map toast_id (toasts state)"
    by (simp add: state'_def Let_def comp_def)
  show "length (toasts state') = length (toasts state)"
    by (simp add: state'_def Let_def)
  show "\<forall>k < length (toasts state).
           toasts state' ! k =
             (if Some (toast_id (toasts state ! k)) = toastId \<or> toastId = None
              then (toasts state ! k)\<lparr>is_open := Some False\<rparr> else toasts state ! k)"
    by (simp add: state'_def Let_def)
  show "\<forall>a s mm. (\<forall>n. a \<noteq> ADD_TOAST n) \<and> (\<forall>i. a \<noteq> REMOVE_TOAST i) \<longrightarrow>
           map toast_id (toasts (fst (reducer s a mm))) = map toast_id (toasts s)"
    using ids_kept by blast
  show "\<forall>n s mm. toasts (fst (reducer s (ADD_TOAST n) mm)) = [n]"
    by (simp add: TOAST_LIMIT_def)
  show "\<forall>t \<in> set (toasts state). Some (toast_id t) = toastId \<or> toastId = None \<longrightarrow>
           toastTimeouts m' (toast_id t) =
             (case toastTimeouts m (toast_id t) of
                None \<Rightarrow> Some \<lparr>due = clock m + TOAST_REMOVE_DELAY, target = toast_id t\<rparr>
              | Some timer \<Rightarrow> Some timer)"
    unfolding m'_def dismiss_timeouts by (auto split: option.splits)
  show "\<forall>j timer. toastTimeouts m j = Some timer \<longrightarrow> toastTimeouts m' j = Some timer"
    unfolding m'_def dismiss_timeouts by simp
  show "(\<forall>j timer. toastTimeouts m j = Some timer \<longrightarrow> target timer = j) \<longrightarrow>
          (\<forall>j timer. toastTimeouts m' j = Some timer \<longrightarrow> target timer = j)"
    unfolding m'_def dismiss_timeouts by (auto split: if_splits)
  show "\<forall>t \<in> set (toasts state).
           (Some (toast_id t) = toastId \<or> toastId = None)
           \<and> (toastTimeouts m (toast_id t) = None
                \<or> (\<forall>j timer. toastTimeouts m j = Some timer \<longrightarrow> target timer = j)) \<longrightarrow>
           (\<exists>timer. toastTimeouts m' (toast_id t) = Some timer
              \<and> target timer = toast_id t
              \<and> (\<forall>mm. toasts (memoryState (timeoutFires timer mm))
                          = filter (\<lambda>x. toast_id x \<noteq> toast_id t) (toasts (memoryState mm))
                        \<and> toastTimeouts (timeoutFires timer mm) (toast_id t) = None))"
  proof (intro ballI impI)
    fix t
    assume t: "t \<in> set (toasts state)"
      and h: "(Some (toast_id t) = toastId \<or> toastId = None)
           \<and> (toastTimeouts m (toast_id t) = None
                \<or> (\<forall>j timer. toastTimeouts m j = Some timer \<longrightarrow> target timer = j))"
    have entry: "toastTimeouts m' (toast_id t) =
             (case toastTimeouts m (toast_id t) of
                None \<Rightarrow> Some \<lparr>due = clock m + TOAST_REMOVE_DELAY, target = toast_id t\<rparr>
              | Some timer \<Rightarrow> Some timer)"
      using t h unfolding m'_def dismiss_timeouts by (auto split: option.splits)
    from h entry obtain timer where timer: "toastTimeouts m' (toast_id t) = Some timer"
      and tgt: "target timer = toast_id t"
      by (cases "toastTimeouts m (toast_id t)") auto
    have "\<forall>mm. toasts (memoryState (timeoutFires timer mm))
                  = filter (\<lambda>x. toast_id x \<noteq> toast_id t) (toasts (memoryState mm))
                \<and> toastTimeouts (timeoutFires timer mm) (toast_id t) = None"
      using timeoutFires_removes [of timer] timeoutFires_dequeues [of timer] tgt by simp
    with timer tgt show "\<exists>timer. toastTimeouts m' (toast_id t) = Some timer
              \<and> target timer = toast_id t
              \<and> (\<forall>mm. toasts (memoryState (timeoutFires timer mm))
                          = filter (\<lambda>x. toast_id x \<noteq> toast_id t) (toasts (memoryState mm))
                        \<and> toastTimeouts (timeoutFires timer mm) (toast_id t) = None)"
      by blast
  qed
qed

theorem dismiss_queues_removal_witness:
  "map toast_id (toasts (fst dismissedOnce)) = [''1'']
   \<and> toasts (fst dismissedOnce) ! 0 = (sampleToast ''1'' ''Level Up!'')\<lparr>is_open := Some False\<rparr>
   \<and> map toast_id (toasts (fst (reducer (fst dismissedOnce)
        (UPDATE_TOAST \<lparr>p_id = Some ''1'', p_title = Some (Some ''Level 3''), p_description = None,
           p_action = None, p_open = None, p_onOpenChange = None, p_props = Map.empty\<rparr>)
        (snd dismissedOnce)))) = [''1'']
   \<and> toastTimeouts (initialModule 0) ''1'' = None
   \<and> toastTimeouts (snd dismissedOnce) ''1''
       = Some \<lparr>due = 0 + TOAST_REMOVE_DELAY, target = ''1''\<rparr>
   \<and> toasts (memoryState (timeoutFires \<lparr>due = 0 + TOAST_REMOVE_DELAY, target = ''1''\<rparr>
        ((snd dismissedOnce)\<lparr>memoryState := fst dismissedOnce\<rparr>))) = []
   \<and> toastTimeouts (timeoutFires \<lparr>due = 0 + TOAST_REMOVE_DELAY, target = ''1''\<rparr>
        ((snd dismissedOnce)\<lparr>memoryState := fst dismissedOnce\<rparr>)) ''1'' = None"
  using dismiss_queues_removal [of "\<lparr>toasts = [sampleToast ''1'' ''Level Up!'']\<rparr>"
      "Some ''1''" "initialModule 0"]
  by (simp add: dismissedOnce_def initialModule_def sampleToast_def addToRemoveQueue_def
      timeoutFires_def dispatch_def spread_def)

section \<open>Properties of the hydration rank\<close>

lemma getHydrationRank_max:
  "50 \<le> lvl \<Longrightarrow>
     getHydrationRank lvl
       = \<lparr>rank = ''Poseidon's Chosen'', nextRank = ''Max Rank'', progress = 100\<rparr>"
  by (simp add: getHydrationRank_def ranks_def at_index_def)

lemma getHydrationRank_below:
  "lvl < 1 \<Longrightarrow>
     getHydrationRank lvl
       = \<lparr>rank = ''Trainee'', nextRank = ''Scout'', progress = (lvl - 1) / 4 * 100\<rparr>"
  by (simp add: getHydrationRank_def ranks_def at_index_def)

text \<open>
  C3, as stated, fails below the first threshold: at level 0 no entry of the table
  has a threshold not exceeding the level, and the function still answers Trainee.
\<close>

theorem rank_lookup_counterexample:
  "filter (\<lambda>r. rank_level r \<le> 0) ranks = []
   \<and> rank_by_table 0 = None
   \<and> rank (getHydrationRank 0) = ''Trainee''"
  by (simp add: getHydrationRank_def rank_by_table_def ranks_def at_index_def)

text \<open>
  C3, amended. \<open>getHydrationRank\<close> is a function of the level alone, and for every
  level of at least 1 the returned rank is the name of the entry with the largest
  threshold not exceeding the level in the nine-entry table (Trainee 1, Scout 5,
  Adept 10, Hydrator 15, Hydro-Hero 20, Aqua-Knight 25, Master 30, Hydration Lord
  40, Poseidon's Chosen 50).
\<close>

theorem rank_lookup:
  fixes lvl :: real
  assumes "1 \<le> lvl"
  shows "Some (rank (getHydrationRank lvl)) = rank_by_table lvl"
proof -
  consider "lvl < 5" | "5 \<le> lvl" "lvl < 10" | "10 \<le> lvl" "lvl < 15"
    | "15 \<le> lvl" "lvl < 20" | "20 \<le> lvl" "lvl < 25" | "25 \<le> lvl" "lvl < 30"
    | "30 \<le> lvl" "lvl < 40" | "40 \<le> lvl" "lvl < 50" | "50 \<le> lvl"
    by linarith
  then show ?thesis
  proof cases
    case 1
    with assms show ?thesis
      by (simp add: getHydrationRank_def rank_by_table_def ranks_def at_index_def)
  next
    case 2
    then show ?thesis
      by (simp add: getHydrationRank_def rank_by_table_def ranks_def at_index_def)
  next
    case 3
    then show ?thesis
      by (simp add: getHydrationRank_def rank_by_table_def ranks_def at_index_def)
  next
    case 4
    then show ?thesis
      by (simp add: getHydrationRank_def rank_by_table_def ranks_def at_index_def)
  next
    case 5
    then show ?thesis
      by (simp add: getHydrationRank_def rank_by_table_def ranks_def at_index_def)
  next
    case 6
    then show ?thesis
      by (simp add: getHydrationRank_def rank_by_table_def ranks_def at_index_def)
  next
    case 7
    then show ?thesis
      by (simp add: getHydrationRank_def rank_by_table_def ranks_def at_index_def)
  next
    case 8
    then show ?thesis
      by (simp add: getHydrationRank_def rank_by_table_def ranks_def at_index_def)
  next
    case 9
    then show ?thesis
      by (simp add: getHydrationRank_def rank_by_table_def ranks_def at_index_def)
  qed
qed

theorem rank_lookup_witness:
  "(1::real) \<le> 28 \<and> rank (getHydrationRank 28) = ''Aqua-Knight''
   \<and> rank_by_table 28 = Some ''Aqua-Knight''"
proof -
  have h: "(1::real) \<le> 28" by simp
  have t: "rank_by_table 28 = Some ''Aqua-Knight''"
    by (simp add: rank_by_table_def ranks_def)
  show ?thesis using h t rank_lookup [OF h] by simp
qed

text \<open>
  C9. At every level of 50 or more the result is rank Poseidon's Chosen, next rank
  Max Rank, progress exactly 100. At every level strictly below 1 the rank is Trainee
  and the progress is \<open>(level - 1) / 4 * 100\<close>, which is strictly negative: there is
  no clamping at the low end.
\<close>

theorem rank_extremes:
  "(50 \<le> lvl \<longrightarrow>
      rank (getHydrationRank lvl) = ''Poseidon's Chosen''
      \<and> nextRank (getHydrationRank lvl) = ''Max Rank''
      \<and> progress (getHydrationRank lvl) = 100)
   \<and> (lvl < 1 \<longrightarrow>
      rank (getHydrationRank lvl) = ''Trainee''
      \<and> progress (getHydrationRank lvl) = (lvl - 1) / 4 * 100
      \<and> progress (getHydrationRank lvl) < 0)"
  by (simp add: getHydrationRank_max getHydrationRank_below)

theorem rank_extremes_witness:
  "(50::real) \<le> 60 \<and> getHydrationRank 60
       = \<lparr>rank = ''Poseidon's Chosen'', nextRank = ''Max Rank'', progress = 100\<rparr>
   \<and> (0::real) < 1 \<and> rank (getHydrationRank 0) = ''Trainee''
   \<and> progress (getHydrationRank 0) = -25"
  using rank_extremes [of 60] rank_extremes [of 0] by simp

section \<open>Properties of the achievement table\<close>

text \<open>On the ids of the data, all non-negative, JavaScript's remainder is \<open>mod\<close>.\<close>

lemma js_rem_nonneg: "0 \<le> a \<Longrightarrow> js_rem a 10 = a mod 10"
  by (cases "a = 0") (simp_all add: js_rem_def)

lemma reduce_lookup:
  assumes "\<And>u u'. user_id u = user_id u' \<Longrightarrow> f u = f u'"
    and "u \<in> set us"
  shows "foldl (\<lambda>acc user. acc(user_id user \<mapsto> f user)) acc0 us (user_id u) = Some (f u)"
  using assms(2)
proof (induction us rule: rev_induct)
  case Nil
  then show ?case by simp
next
  case (snoc x xs)
  show ?case
  proof (cases "user_id x = user_id u")
    case True
    then have "f x = f u" by (rule assms(1))
    with True show ?thesis by simp
  next
    case False
    with snoc.prems have "u \<in> set xs" by auto
    with False snoc.IH show ?thesis by simp
  qed
qed

lemma len28: "length allAchievementsList = 28"
  by (simp add: allAchievementsList_def)


lemma user_ids_all: "list_all (\<lambda>u. 0 \<le> user_id u) leaderboardData"
  by (simp add: leaderboardData_def)

lemma ach_ids_all: "list_all (\<lambda>a. 0 \<le> ach_id a) allAchievementsList"
  by (simp add: allAchievementsList_def)

lemma user_ids_nonneg: "u \<in> set leaderboardData \<Longrightarrow> 0 \<le> user_id u"
  using user_ids_all by (simp add: list_all_iff)

lemma ach_ids_nonneg: "a \<in> set allAchievementsList \<Longrightarrow> 0 \<le> ach_id a"
  using ach_ids_all by (simp add: list_all_iff)

lemma allAchievements_lookup:
  "u \<in> set leaderboardData \<Longrightarrow>
     allAchievements (user_id u) = Some (map (unlock u) allAchievementsList)"
  unfolding allAchievements_def
  by (rule reduce_lookup [where f = "\<lambda>u. map (unlock u) allAchievementsList"])
     (simp_all add: unlock_def)

text \<open>
  C7. The master list has 28 achievements, and for every user \<open>u\<close> of
  \<open>leaderboardData\<close> and every achievement \<open>a\<close> of the master list,
  \<open>allAchievements[u.id]\<close> is a list of 28 entries that contains \<open>a\<close> with
  \<open>achieved\<close> equal to \<open>(a.id * 3 + u.id * 5) mod 10 > 3\<close>. The table is a constant:
  nothing random enters it.
\<close>

theorem achievements_deterministic:
  "length allAchievementsList = 28
   \<and> (\<forall>u \<in> set leaderboardData. \<forall>a \<in> set allAchievementsList.
        \<exists>as. allAchievements (user_id u) = Some as \<and> length as = 28
          \<and> \<lparr> ach_id = ach_id a, icon = icon a, ach_title = ach_title a,
               ach_description = ach_description a,
               achieved = ((ach_id a * 3 + user_id u * 5) mod 10 > 3) \<rparr> \<in> set as)"
proof (intro conjI ballI)
  show "length allAchievementsList = 28" by (rule len28)
next
  fix u a
  assume u: "u \<in> set leaderboardData" and a: "a \<in> set allAchievementsList"
  have "0 \<le> ach_id a * 3 + user_id u * 5"
    using user_ids_nonneg [OF u] ach_ids_nonneg [OF a] by simp
  then have "unlock u a = \<lparr> ach_id = ach_id a, icon = icon a, ach_title = ach_title a,
               ach_description = ach_description a,
               achieved = ((ach_id a * 3 + user_id u * 5) mod 10 > 3) \<rparr>"
    by (simp add: unlock_def js_rem_nonneg)
  moreover have "unlock u a \<in> set (map (unlock u) allAchievementsList)"
    using a by simp
  ultimately show "\<exists>as. allAchievements (user_id u) = Some as \<and> length as = 28
          \<and> \<lparr> ach_id = ach_id a, icon = icon a, ach_title = ach_title a,
               ach_description = ach_description a,
               achieved = ((ach_id a * 3 + user_id u * 5) mod 10 > 3) \<rparr> \<in> set as"
    using allAchievements_lookup [OF u] len28 by simp
qed

theorem achievements_deterministic_witness:
  "\<lparr>user_id = 1, user_rank = 1, user_name = ''Joan Clarke'', user_drops = 13500,
       avatar = ''woman thinking'', user_streak = 42, user_level = 28\<rparr> \<in> set leaderboardData
   \<and> \<lparr>ach_id = 2, icon = Award, ach_title = ''Half-Litre Hero'',
        ach_description = ''Drink 500 mL in a day.''\<rparr> \<in> set allAchievementsList
   \<and> (\<exists>as. allAchievements 1 = Some as \<and> length as = 28
        \<and> \<lparr>ach_id = 2, icon = Award, ach_title = ''Half-Litre Hero'',
             ach_description = ''Drink 500 mL in a day.'', achieved = False\<rparr> \<in> set as)"
proof -
  have u: "\<lparr>user_id = 1, user_rank = 1, user_name = ''Joan Clarke'', user_drops = 13500,
       avatar = ''woman thinking'', user_streak = 42, user_level = 28\<rparr> \<in> set leaderboardData"
    by (simp add: leaderboardData_def)
  have a: "\<lparr>ach_id = 2, icon = Award, ach_title = ''Half-Litre Hero'',
        ach_description = ''Drink 500 mL in a day.''\<rparr> \<in> set allAchievementsList"
    by (simp add: allAchievementsList_def)
  show ?thesis
    using u a achievements_deterministic [THEN conjunct2, THEN bspec, OF u, THEN bspec, OF a]
    by simp
qed

section \<open>Properties of the dashboard simulation\<close>

lemma drank_range: "0 \<le> rnd \<Longrightarrow> rnd < 1 \<Longrightarrow> drank rnd \<in> {50, 100, 150}"
proof -
  assume a: "0 \<le> rnd" "rnd < 1"
  then have "0 \<le> \<lfloor>rnd * 3\<rfloor>" "\<lfloor>rnd * 3\<rfloor> < 3"
    by (simp_all add: floor_less_iff)
  then have "\<lfloor>rnd * 3\<rfloor> = 0 \<or> \<lfloor>rnd * 3\<rfloor> = 1 \<or> \<lfloor>rnd * 3\<rfloor> = 2" by linarith
  then show ?thesis by (auto simp: drank_def)
qed

lemma tick_drops: "drops (tick rnd s) = (if drank rnd > 0 then drops s + \<lfloor>real_of_int (drank rnd) / 10\<rfloor> else drops s)"
  by (simp add: tick_def Let_def)

lemma floor_div10: "\<lfloor>real_of_int d / 10\<rfloor> = d div 10"
  by (simp add: floor_divide_of_int_eq [of d 10, simplified])

text \<open>
  C4. For every value \<open>Math.random()\<close> can return, the simulated drink is 50, 100
  or 150 ml and the tick raises the drops counter by exactly \<open>floor(drank / 10)\<close>,
  the integer quotient of the amount by 10; and no tick, whatever the random value,
  lowers the drops counter.
\<close>

theorem drops_awarded:
  "(0 \<le> rnd \<and> rnd < 1 \<longrightarrow>
      drank rnd \<in> {50, 100, 150}
      \<and> drops (tick rnd s) = drops s + \<lfloor>real_of_int (drank rnd) / 10\<rfloor>
      \<and> drops (tick rnd s) = drops s + drank rnd div 10)
   \<and> drops s \<le> drops (tick rnd s)"
proof (intro conjI impI)
  assume a: "0 \<le> rnd \<and> rnd < 1"
  then show r: "drank rnd \<in> {50, 100, 150}" using drank_range [of rnd] by blast
  then have pos: "drank rnd > 0" by auto
  then show "drops (tick rnd s) = drops s + \<lfloor>real_of_int (drank rnd) / 10\<rfloor>"
    by (simp add: tick_drops)
  then show "drops (tick rnd s) = drops s + drank rnd div 10"
    by (simp add: floor_div10)
next
  show "drops s \<le> drops (tick rnd s)"
    by (simp add: tick_drops floor_div10 pos_imp_zdiv_nonneg_iff)
qed

theorem drops_awarded_witness:
  "(0::real) \<le> 1 / 2 \<and> (1::real) / 2 < 1 \<and> drank (1 / 2) = 100
   \<and> drops (tick (1 / 2) (initialDashboard \<lparr>message = ''Keep going'', motivation_title = ''Hi''\<rparr>)) = 10"
  using drops_awarded [of "1 / 2" "initialDashboard \<lparr>message = ''Keep going'', motivation_title = ''Hi''\<rparr>"]
  by (simp add: drank_def initialDashboard_def)

lemma tick_inv:
  "current (hydration s) \<le> goal (hydration s) \<Longrightarrow> 0 \<le> bottleLevel s \<Longrightarrow>
   current (hydration (tick rnd s)) \<le> goal (hydration (tick rnd s)) \<and> 0 \<le> bottleLevel (tick rnd s)"
  by (simp add: tick_def Let_def)

lemma ticks_inv:
  "current (hydration s) \<le> goal (hydration s) \<Longrightarrow> 0 \<le> bottleLevel s \<Longrightarrow>
   current (hydration (ticks rnds s)) \<le> goal (hydration (ticks rnds s)) \<and> 0 \<le> bottleLevel (ticks rnds s)"
  unfolding ticks_def
  by (induction rnds arbitrary: s) (simp_all add: tick_inv)

text \<open>
  C8. After connecting, and after any sequence of interval ticks, whatever the random
  values, \<open>hydration.current\<close> does not exceed \<open>hydration.goal\<close> and \<open>bottleLevel\<close> is
  not below 0.
\<close>

theorem simulation_clamped:
  "current (hydration (ticks rnds (fst (handleConnect s m)))) \<le> goal (hydration (ticks rnds (fst (handleConnect s m))))
   \<and> 0 \<le> bottleLevel (ticks rnds (fst (handleConnect s m)))"
  by (rule ticks_inv) (simp_all add: handleConnect_def Let_def)

theorem simulation_clamped_witness:
  "bottleLevel (ticks [9 / 10, 9 / 10, 9 / 10, 9 / 10, 9 / 10, 9 / 10]
      (fst (handleConnect (initialDashboard \<lparr>message = ''Keep going'', motivation_title = ''Hi''\<rparr>)
         (initialModule 0)))) = 0
   \<and> current (hydration (ticks [9 / 10, 9 / 10, 9 / 10, 9 / 10, 9 / 10, 9 / 10]
      (fst (handleConnect (initialDashboard \<lparr>message = ''Keep going'', motivation_title = ''Hi''\<rparr>)
         (initialModule 0))))) = 900"
  using simulation_clamped [of "[9 / 10, 9 / 10, 9 / 10, 9 / 10, 9 / 10, 9 / 10]"
      "initialDashboard \<lparr>message = ''Keep going'', motivation_title = ''Hi''\<rparr>" "initialModule 0"]
  by (simp add: ticks_def tick_def drank_def handleConnect_def initialDashboard_def Let_def)

section \<open>Properties of the connect handler\<close>

lemma toString_1: "toString (Suc 0) = ''1''"
  by code_simp

text \<open>
  C6. \<open>handleConnect\<close> is a function of the component state and of the toast module
  alone. It sets \<open>isConnected\<close>, resets the counters to hydration \<open>{current: 0, goal:
  2500}\<close>, bottleLevel 750, streak 5, level 1, xp 0, drops 0 whatever they were, and
  leaves the rest of the component state as it was. It emits one toast, "NEPHRA
  Connected", which becomes the toast on screen under the next id; it starts no
  timer.
\<close>

theorem handleConnect_resets:
  fixes s :: Dashboard and m :: Module
  defines "c \<equiv> (count m + 1) mod MAX_SAFE_INTEGER"
  shows
    "fst (handleConnect s m)
       = \<lparr> isConnected = True, hydration = \<lparr>current = 0, goal = 2500\<rparr>, bottleLevel = 750,
           streak = 5, motivation = motivation s, level = 1, xp = 0, drops = 0,
           levelUpInfo = levelUpInfo s \<rparr>
     \<and> toasts (memoryState (snd (handleConnect s m)))
       = [\<lparr> toast_id = toString c, title = Some ''NEPHRA Connected'',
            description = Some ''Ready to track your hydration.'', action = None,
            is_open = Some True, onOpenChange = Some (DismissOnClose (toString c)),
            props = Map.empty \<rparr>]
     \<and> count (snd (handleConnect s m)) = c
     \<and> toastTimeouts (snd (handleConnect s m)) = toastTimeouts m
     \<and> clock (snd (handleConnect s m)) = clock m"
  by (simp add: handleConnect_def toast_def genId_def dispatch_def titled_def Let_def
      TOAST_LIMIT_def c_def)

theorem handleConnect_resets_witness:
  "fst (handleConnect (initialDashboard \<lparr>message = ''Keep going'', motivation_title = ''Hi''\<rparr>)
         (initialModule 0))
     = \<lparr> isConnected = True, hydration = \<lparr>current = 0, goal = 2500\<rparr>, bottleLevel = 750,
         streak = 5, motivation = \<lparr>message = ''Keep going'', motivation_title = ''Hi''\<rparr>,
         level = 1, xp = 0, drops = 0, levelUpInfo = None \<rparr>
   \<and> map toast_id (toasts (memoryState (snd (handleConnect
         (initialDashboard \<lparr>message = ''Keep going'', motivation_title = ''Hi''\<rparr>)
         (initialModule 0))))) = [''1'']"
  using handleConnect_resets [of "initialDashboard \<lparr>message = ''Keep going'', motivation_title = ''Hi''\<rparr>"
      "initialModule 0"]
  by (simp add: initialDashboard_def initialModule_def MAX_SAFE_INTEGER_def toString_1)

section \<open>Properties of the server action\<close>

lemma action_cases:
  "getHydrationRecommendationAction parse flow data =
     (case parse data of
        Inl e \<Rightarrow> (None, [e])
      | Inr v \<Rightarrow> (case flow (withHistory v mockHistoricalData) of
                   Inl e \<Rightarrow> (None, [e])
                 | Inr r \<Rightarrow> (Some r, [])))"
  by (simp add: getHydrationRecommendationAction_def tryBody_def split: sum.splits)

text \<open>
  C5. The action validates first: when the validation throws, the result is
  \<open>null\<close> whatever the flow is, so the flow is not consulted. The flow receives the
  validated data with the mock history. The action returns \<open>null\<close> exactly when the
  validation or the flow call throws (and then logs the error); otherwise it
  returns the flow's result unchanged.
\<close>

theorem action_null_iff_throws:
  "(fst (getHydrationRecommendationAction parse flow data) = None)
     = ((\<exists>e. parse data = Inl e)
        \<or> (\<exists>v e. parse data = Inr v \<and> flow (withHistory v mockHistoricalData) = Inl e))
   \<and> (\<forall>e flow'. parse data = Inl e \<longrightarrow>
         getHydrationRecommendationAction parse flow' data = (None, [e]))
   \<and> (\<forall>v e. parse data = Inr v \<and> flow (withHistory v mockHistoricalData) = Inl e \<longrightarrow>
         getHydrationRecommendationAction parse flow data = (None, [e]))
   \<and> (\<forall>v r. parse data = Inr v \<and> flow (withHistory v mockHistoricalData) = Inr r \<longrightarrow>
         getHydrationRecommendationAction parse flow data = (Some r, []))"
  by (auto simp: action_cases split: sum.splits)

theorem action_null_iff_throws_witness:
  "testParse None = Inl ''ZodError''
   \<and> getHydrationRecommendationAction testParse testFlow None = (None, [''ZodError''])
   \<and> testParse (Some (formDefaults\<lparr>weight := 0\<rparr>)) = Inr (formDefaults\<lparr>weight := 0\<rparr>)
   \<and> testFlow (withHistory (formDefaults\<lparr>weight := 0\<rparr>) mockHistoricalData) = Inl ''no output''
   \<and> getHydrationRecommendationAction testParse testFlow (Some (formDefaults\<lparr>weight := 0\<rparr>))
       = (None, [''no output''])
   \<and> testParse (Some formDefaults) = Inr formDefaults
   \<and> getHydrationRecommendationAction testParse testFlow (Some formDefaults)
       = (Some \<lparr>goal_ml = 1925, alert_interval_minutes = 60\<rparr>, [])"
  using action_null_iff_throws [of testParse testFlow None]
    action_null_iff_throws [of testParse testFlow "Some (formDefaults\<lparr>weight := 0\<rparr>)"]
    action_null_iff_throws [of testParse testFlow "Some formDefaults"]
  by (simp add: testParse_def testFlow_def formDefaults_def withHistory_def)

end
